theory Spec2Isabelle
  imports Main "HOL-Library.Word"
begin

unbundle bit_operations_syntax

section \<open>The vault of kopia: a shallow embedding of vault/vault.go\<close>

text \<open>
  The vault stores named items in a blob store, encrypted with AES in counter mode and
  authenticated with HMAC-SHA-256 over the IV and the ciphertext. The definitions below
  follow \<^verbatim>\<open>vault/vault.go\<close> function by function. Go's standard library (AES, HMAC,
  HKDF, JSON, base64) and the packages \<^verbatim>\<open>blob\<close> and \<^verbatim>\<open>repo\<close> are collaborators of the
  file: the cryptographic primitives and the codecs are parameters of the model, and the
  blob store is modelled from the specification.
\<close>

subsection \<open>Bytes, errors and results\<close>

type_synonym byte = "8 word"
type_synonym bytes = "byte list"

text \<open>
  A Go \<^verbatim>\<open>error\<close> is a value with a message. \<open>NotFound\<close> is the error of the blob
  store for an absent block; every other error is made by \<^verbatim>\<open>errors.New\<close> or
  \<^verbatim>\<open>fmt.Errorf\<close> and is its message.
\<close>

datatype error = NotFound | Errorf string

text \<open>
  A function that returns \<^verbatim>\<open>(T, error)\<close> is modelled with the sum \<open>error + T\<close>
  (\<open>Inl\<close> the error), one that returns only an \<^verbatim>\<open>error\<close> with \<open>error option\<close>.
  \<^verbatim>\<open>readEncryptedBlock\<close> and its callers can also stop with a run-time panic (a slice
  expression with a negative bound, \<^verbatim>\<open>make\<close> with a negative length); they have the
  three-way \<open>result\<close>. A panic is not an error value: \<^verbatim>\<open>if err != nil\<close> does not
  see it.
\<close>

datatype 'a result = Ok 'a | Err error | Panic string

definition ErrItemNotFound :: error where
  "ErrItemNotFound = Errorf ''item not found''"

definition formatBlockID :: string where
  "formatBlockID = ''format''"

definition checksumBlockID :: string where
  "checksumBlockID = ''checksum''"

definition repositoryConfigBlock :: string where
  "repositoryConfigBlock = ''repo''"

definition purposeAESKey :: bytes where
  "purposeAESKey = [0x41, 0x45, 0x53]"

definition purposeChecksumSecret :: bytes where
  "purposeChecksumSecret = [0x43, 0x48, 0x45, 0x43, 0x4B, 0x53, 0x55, 0x4D]"

subsection \<open>The blob store\<close>

text \<open>
  Modelled from the spec: the interface \<^verbatim>\<open>blob.Storage\<close> (package \<^verbatim>\<open>blob\<close>, outside
  \<^verbatim>\<open>vault/vault.go\<close>). The store is a flat namespace of named binary blocks with
  strongly consistent put and get: \<^verbatim>\<open>putBlock(id, bytes, overwrite)\<close>,
  \<^verbatim>\<open>getBlock(id) -> bytes | NotFound\<close>, \<^verbatim>\<open>deleteBlock(id)\<close>. The Go methods
  \<^verbatim>\<open>PutBlock\<close> and \<^verbatim>\<open>DeleteBlock\<close> return an \<^verbatim>\<open>error\<close>: \<open>put_fault\<close> and
  \<open>delete_fault\<close> give, for each block id, the error with which the store refuses
  the write or the deletion, if it does; a refused operation leaves the blocks as they are.
\<close>

record blob_Storage =
  blocks :: "string \<rightharpoonup> bytes"
  put_fault :: "string \<Rightarrow> error option"
  delete_fault :: "string \<Rightarrow> error option"

definition PutBlock :: "blob_Storage \<Rightarrow> string \<Rightarrow> bytes \<Rightarrow> error option \<times> blob_Storage" where
  "PutBlock st blockID content =
     (case put_fault st blockID of
        Some e \<Rightarrow> (Some e, st)
      | None \<Rightarrow> (None, st\<lparr>blocks := (blocks st)(blockID \<mapsto> content)\<rparr>))"

definition GetBlock :: "blob_Storage \<Rightarrow> string \<Rightarrow> error + bytes" where
  "GetBlock st blockID =
     (case blocks st blockID of None \<Rightarrow> Inl NotFound | Some content \<Rightarrow> Inr content)"

definition DeleteBlock :: "blob_Storage \<Rightarrow> string \<Rightarrow> error option \<times> blob_Storage" where
  "DeleteBlock st blockID =
     (case delete_fault st blockID of
        Some e \<Rightarrow> (Some e, st)
      | None \<Rightarrow> (None, st\<lparr>blocks := (blocks st)(blockID := None)\<rparr>))"

subsection \<open>The vault and its format\<close>

text \<open>
  Modelled from the spec: the type \<^verbatim>\<open>Format\<close> (declared outside \<^verbatim>\<open>vault/vault.go\<close>):
  the version, the names of the encryption and checksum algorithms, and the 32 random
  bytes that identify the vault and salt every key derivation.
\<close>

record Format =
  Version :: string
  Encryption :: string
  Checksum :: string
  UniqueID :: bytes

text \<open>
  \<^verbatim>\<open>type Vault struct { storage blob.Storage; masterKey []byte; format Format }\<close>.
  The storage handle of the Go struct refers to a store outside the program; here the
  field holds the state of that store, and an operation that writes returns the vault
  with the new state.
\<close>

record Vault =
  storage :: blob_Storage
  masterKey :: bytes
  format :: Format

subsection \<open>The cryptographic primitives\<close>

text \<open>
  The primitives of Go's library are parameters. \<open>hkdf_sha256 secret salt info n\<close> is
  what the reader \<^verbatim>\<open>hkdf.New(sha256.New, secret, salt, info)\<close> delivers when \<open>n\<close> bytes
  are asked of it; \<open>hmac_sha256 key data\<close> is the 256-bit tag; \<open>aes_Encrypt key\<close> is
  the permutation of 128-bit blocks of the cipher \<^verbatim>\<open>aes.NewCipher(key)\<close>. A block of
  16 bytes is read as a 128-bit word, most significant byte first.
\<close>

record crypto =
  hkdf_sha256 :: "bytes \<Rightarrow> bytes \<Rightarrow> bytes \<Rightarrow> nat \<Rightarrow> bytes"
  hmac_sha256 :: "bytes \<Rightarrow> bytes \<Rightarrow> 256 word"
  aes_Encrypt :: "bytes \<Rightarrow> 128 word \<Rightarrow> 128 word"

definition be_word :: "bytes \<Rightarrow> 'a::len word" where
  "be_word bs = foldl (\<lambda>acc b. push_bit 8 acc OR ucast b) 0 bs"

definition be_bytes :: "nat \<Rightarrow> 'a::len word \<Rightarrow> bytes" where
  "be_bytes n w = map (\<lambda>i. ucast (drop_bit (8 * (n - 1 - i)) w)) [0..<n]"

text \<open>\<^verbatim>\<open>hash.Hash\<close>: the size of the digest and the digest of the bytes written.\<close>

record hash_Hash =
  Size :: nat
  Sum :: "bytes \<Rightarrow> bytes"

text \<open>\<^verbatim>\<open>cipher.Block\<close>: the block size and the encryption of one block.\<close>

record cipher_Block =
  BlockSize :: nat
  Encrypt :: "128 word \<Rightarrow> 128 word"

definition hmac_New :: "crypto \<Rightarrow> bytes \<Rightarrow> hash_Hash" where
  "hmac_New C key = \<lparr>Size = 32, Sum = (\<lambda>written. be_bytes 32 (hmac_sha256 C key written))\<rparr>"

text \<open>\<^verbatim>\<open>hmac.Equal\<close> compares two tags; it is false when their lengths differ.\<close>

definition hmac_Equal :: "bytes \<Rightarrow> bytes \<Rightarrow> bool" where
  "hmac_Equal mac1 mac2 = (mac1 = mac2)"

text \<open>\<^verbatim>\<open>aes.NewCipher\<close> accepts keys of 16, 24 and 32 bytes.\<close>

definition aes_NewCipher :: "crypto \<Rightarrow> bytes \<Rightarrow> error + cipher_Block" where
  "aes_NewCipher C k =
     (if length k = 16 \<or> length k = 24 \<or> length k = 32
      then Inr \<lparr>BlockSize = 16, Encrypt = aes_Encrypt C k\<rparr>
      else Inl (Errorf ''crypto/aes: invalid key size''))"

text \<open>
  \<^verbatim>\<open>cipher.NewCTR(blk, iv)\<close> and \<^verbatim>\<open>XORKeyStream(dst, src)\<close>: the key stream is the
  encryption of the counter blocks \<open>iv\<close>, \<open>iv + 1\<close>, ... (the counter is incremented
  as a big-endian number and wraps around), and byte \<open>i\<close> of the source is combined
  with byte \<open>i\<close> of the key stream. The result is the \<open>length src\<close> bytes written
  to the destination.
\<close>

fun keystream :: "(128 word \<Rightarrow> 128 word) \<Rightarrow> 128 word \<Rightarrow> nat \<Rightarrow> bytes" where
  "keystream E ctr 0 = []"
| "keystream E ctr (Suc n) = be_bytes 16 (E ctr) @ keystream E (ctr + 1) n"

definition XORKeyStream :: "cipher_Block \<Rightarrow> bytes \<Rightarrow> bytes \<Rightarrow> bytes" where
  "XORKeyStream blk iv src =
     map2 (XOR) src (keystream (Encrypt blk) (be_word iv) ((length src + 15) div 16))"

text \<open>
  \<^verbatim>\<open>io.ReadFull(rand.Reader, buf)\<close>: the random source is the sequence of bytes it has
  yet to deliver; a read of \<open>n\<close> bytes takes them from the front, and fails when fewer
  are left.
\<close>

definition io_ReadFull :: "bytes \<Rightarrow> nat \<Rightarrow> (error + bytes) \<times> bytes" where
  "io_ReadFull rnd n =
     (if n \<le> length rnd then (Inr (take n rnd), drop n rnd)
      else (Inl (Errorf (if rnd = [] then ''EOF'' else ''unexpected EOF'')), []))"

text \<open>
  \<^verbatim>\<open>copy(dst[off:], src)\<close>: the bytes of \<open>src\<close> overwrite \<open>dst\<close> from offset
  \<open>off\<close>, as many as fit.
\<close>

definition copy_at :: "bytes \<Rightarrow> nat \<Rightarrow> bytes \<Rightarrow> bytes" where
  "copy_at dst off src =
     take off dst @ take (length dst - off) src @ drop (off + length src) dst"

subsection \<open>Key derivation and the choice of algorithms\<close>

text \<open>
  \<^verbatim>\<open>deriveKey(purpose, key)\<close> fills the buffer \<open>key\<close> of \<open>n\<close> zero bytes from the
  HKDF reader; its callers drop the error of a short read, which leaves the rest of the
  buffer as it was.
\<close>

definition deriveKey :: "crypto \<Rightarrow> Vault \<Rightarrow> bytes \<Rightarrow> nat \<Rightarrow> bytes" where
  "deriveKey C v purpose n =
     copy_at (replicate n 0) 0
       (hkdf_sha256 C (masterKey v) (UniqueID (format v)) purpose n)"

definition newChecksum :: "crypto \<Rightarrow> Vault \<Rightarrow> error + hash_Hash" where
  "newChecksum C v =
     (if Checksum (format v) = ''hmac-sha-256''
      then Inr (hmac_New C (deriveKey C v purposeChecksumSecret 32))
      else Inl (Errorf (''unsupported checksum format: '' @ Checksum (format v))))"

definition newCipher :: "crypto \<Rightarrow> Vault \<Rightarrow> error + cipher_Block option" where
  "newCipher C v =
     (if Encryption (format v) = ''none'' then Inr None
      else if Encryption (format v) = ''aes-128''
        then map_sum id Some (aes_NewCipher C (deriveKey C v purposeAESKey 16))
      else if Encryption (format v) = ''aes-192''
        then map_sum id Some (aes_NewCipher C (deriveKey C v purposeAESKey 24))
      else if Encryption (format v) = ''aes-256''
        then map_sum id Some (aes_NewCipher C (deriveKey C v purposeAESKey 32))
      else Inl (Errorf (''unsupported encryption format: '' @ Encryption (format v))))"

subsection \<open>Put and readEncryptedBlock\<close>

text \<open>
  \<^verbatim>\<open>Put\<close>: with a cipher, the buffer \<open>cipherText\<close> of
  \<open>ivLength + len(content) + hash.Size()\<close> zero bytes receives the random IV, then
  the key stream applied to the content, then the tag of the first
  \<open>ivPlusContentLength\<close> bytes; without one the content is stored as it is. The result
  is the error (if any), the vault with the store after the call, and the random source
  after the call.
\<close>

definition Put :: "crypto \<Rightarrow> Vault \<Rightarrow> string \<Rightarrow> bytes \<Rightarrow> bytes \<Rightarrow> error option \<times> Vault \<times> bytes" where
  "Put C v itemID content rnd =
     (case newCipher C v of
        Inl e \<Rightarrow> (Some e, v, rnd)
      | Inr None \<Rightarrow>
          (case PutBlock (storage v) itemID content of
             (r, st) \<Rightarrow> (r, v\<lparr>storage := st\<rparr>, rnd))
      | Inr (Some blk) \<Rightarrow>
          (case newChecksum C v of
             Inl e \<Rightarrow> (Some e, v, rnd)
           | Inr hash \<Rightarrow>
               (let ivLength = BlockSize blk;
                    ivPlusContentLength = ivLength + length content;
                    cipherText0 = replicate (ivPlusContentLength + Size hash) 0
                in case io_ReadFull rnd ivLength of
                     (Inl e, rnd') \<Rightarrow> (Some e, v, rnd')
                   | (Inr iv, rnd') \<Rightarrow>
                       (let cipherText1 = copy_at cipherText0 0 iv;
                            cipherText2 = copy_at cipherText1 ivLength (XORKeyStream blk iv content);
                            cipherText3 = copy_at cipherText2 ivPlusContentLength
                                            (Sum hash (take ivPlusContentLength cipherText2))
                        in case PutBlock (storage v) itemID cipherText3 of
                             (r, st) \<Rightarrow> (r, v\<lparr>storage := st\<rparr>, rnd')))))"

text \<open>
  \<^verbatim>\<open>readEncryptedBlock\<close>: \<open>p = len(content) - hash.Size()\<close> is a Go \<^verbatim>\<open>int\<close> and
  may be negative; the slice expressions \<^verbatim>\<open>content[0:p]\<close> and \<^verbatim>\<open>content[p:]\<close> then
  panic, as \<^verbatim>\<open>make([]byte, n)\<close> does for a negative \<open>n\<close>.
\<close>

definition readEncryptedBlock :: "crypto \<Rightarrow> Vault \<Rightarrow> string \<Rightarrow> bytes result" where
  "readEncryptedBlock C v itemID =
     (case GetBlock (storage v) itemID of
        Inl e \<Rightarrow> Err e
      | Inr content \<Rightarrow>
          (case newCipher C v of
             Inl e \<Rightarrow> Err e
           | Inr None \<Rightarrow> Ok content
           | Inr (Some blk) \<Rightarrow>
               (case newChecksum C v of
                  Inl e \<Rightarrow> Err e
                | Inr hash \<Rightarrow>
                    (let p = int (length content) - int (Size hash)
                     in if p < 0 then Panic ''slice bounds out of range''
                        else
                          (let expectedChecksum = Sum hash (take (nat p) content);
                               actualChecksum = drop (nat p) content
                           in if \<not> hmac_Equal expectedChecksum actualChecksum
                              then Err (Errorf ''cannot read encrypted block: incorrect checksum'')
                              else
                                (let ivLength = BlockSize blk;
                                     n = int (length content) - int ivLength - int (Size hash)
                                 in if n < 0 then Panic ''makeslice: len out of range''
                                    else
                                      (let iv = take (BlockSize blk) content;
                                           src = drop ivLength
                                                   (take (length content - Size hash) content)
                                       in Ok (XORKeyStream blk iv src))))))))"

definition Get :: "crypto \<Rightarrow> Vault \<Rightarrow> string \<Rightarrow> bytes result" where
  "Get C v itemID = readEncryptedBlock C v itemID"

subsection \<open>Typed items, removal\<close>

text \<open>
  \<^verbatim>\<open>getJSON(itemID, content)\<close>: \<open>content\<close> is the value behind the pointer the
  caller passes, returned as \<^verbatim>\<open>json.Unmarshal\<close> leaves it. \<^verbatim>\<open>json.Unmarshal\<close> and
  \<^verbatim>\<open>json.Marshal\<close> for the type of the payload are parameters.
\<close>

definition getJSON ::
  "crypto \<Rightarrow> (bytes \<Rightarrow> 'a \<Rightarrow> error option \<times> 'a) \<Rightarrow> Vault \<Rightarrow> string \<Rightarrow> 'a \<Rightarrow> unit result \<times> 'a" where
  "getJSON C json_Unmarshal v itemID content =
     (case readEncryptedBlock C v itemID of
        Err e \<Rightarrow> (Ok (), content)
      | Panic s \<Rightarrow> (Panic s, content)
      | Ok j \<Rightarrow>
          (case json_Unmarshal j content of
             (None, content') \<Rightarrow> (Ok (), content')
           | (Some e, content') \<Rightarrow> (Err e, content')))"

definition putJSON ::
  "crypto \<Rightarrow> ('a \<Rightarrow> string + bytes) \<Rightarrow> Vault \<Rightarrow> string \<Rightarrow> 'a \<Rightarrow> bytes \<Rightarrow> error option \<times> Vault \<times> bytes" where
  "putJSON C json_Marshal v itemID content rnd =
     (case json_Marshal content of
        Inl msg \<Rightarrow> (Some (Errorf msg), v, rnd)
      | Inr j \<Rightarrow> Put C v itemID j rnd)"

definition Remove :: "Vault \<Rightarrow> string \<Rightarrow> error option \<times> Vault" where
  "Remove v itemID =
     (if itemID = formatBlockID \<or> itemID = repositoryConfigBlock \<or> itemID = checksumBlockID
      then (Some (Errorf (''item cannot be deleted: '' @ itemID)), v)
      else (case DeleteBlock (storage v) itemID of (r, st) \<Rightarrow> (r, v\<lparr>storage := st\<rparr>)))"

subsection \<open>Create, Open and OpenWithToken\<close>

text \<open>
  \<^verbatim>\<open>repositoryConfig\<close> and \<^verbatim>\<open>vaultConfig\<close>; the connection descriptor
  (\<^verbatim>\<open>blob.ConnectionInfo\<close>) and the format of the repository (\<^verbatim>\<open>repo.Format\<close>) are
  opaque to the vault and are type parameters.
\<close>

record ('c, 'f) repositoryConfig =
  Connection :: 'c
  repoFormat :: 'f

record 'c vaultConfig =
  ConnectionInfo :: 'c
  Key :: bytes

text \<open>
  \<^verbatim>\<open>Credentials\<close>: the method \<^verbatim>\<open>getMasterKey(uniqueID)\<close>.
\<close>

type_synonym Credentials = "bytes \<Rightarrow> bytes"

text \<open>
  The codecs and constructors the three functions call: \<^verbatim>\<open>json.Marshal\<close> and
  \<^verbatim>\<open>json.Unmarshal\<close> at the types used, \<^verbatim>\<open>base64.RawURLEncoding.DecodeString\<close>,
  \<^verbatim>\<open>blob.NewStorage\<close> and \<^verbatim>\<open>MasterKey\<close>. Each returns its value or the message of
  its error.
\<close>

record ('c, 'f) library =
  json_Marshal_Format :: "Format \<Rightarrow> string + bytes"
  json_Unmarshal_Format :: "bytes \<Rightarrow> string + Format"
  json_Marshal_repositoryConfig :: "('c, 'f) repositoryConfig \<Rightarrow> string + bytes"
  base64_DecodeString :: "string \<Rightarrow> string + bytes"
  json_Unmarshal_vaultConfig :: "bytes \<Rightarrow> string + 'c vaultConfig"
  blob_NewStorage :: "'c \<Rightarrow> string + blob_Storage"
  MasterKey :: "bytes \<Rightarrow> string + Credentials"

text \<open>
  \<^verbatim>\<open>Create\<close>: \<open>repoStorage\<close> is the connection descriptor the repository storage
  reports, \<open>None\<close> when it is not a \<^verbatim>\<open>blob.ConnectionInfoProvider\<close>. The result of
  \<^verbatim>\<open>vaultStorage.PutBlock\<close> for the format block is not looked at. The store and the
  random source after the call are returned beside the result, since a failing
  \<^verbatim>\<open>Create\<close> has already written.
\<close>

definition Create ::
  "('c, 'f) library \<Rightarrow> crypto \<Rightarrow> blob_Storage \<Rightarrow> Format \<Rightarrow> Credentials \<Rightarrow> 'c option \<Rightarrow> 'f \<Rightarrow> bytes
     \<Rightarrow> (error + Vault) \<times> blob_Storage \<times> bytes" where
  "Create L C vaultStorage vaultFormat vaultCreds repoStorage repoFmt rnd =
     (case repoStorage of
        None \<Rightarrow>
          (Inl (Errorf ''repository does not support persisting configuration''), vaultStorage, rnd)
      | Some conn \<Rightarrow>
          (case io_ReadFull rnd 32 of
             (Inl e, rnd1) \<Rightarrow> (Inl e, vaultStorage, rnd1)
           | (Inr uniqueID, rnd1) \<Rightarrow>
               (let v = \<lparr>storage = vaultStorage,
                         masterKey = vaultCreds uniqueID,
                         format = vaultFormat\<lparr>Version := ''1'', UniqueID := uniqueID\<rparr>\<rparr>
                in case json_Marshal_Format L (format v) of
                     Inl msg \<Rightarrow> (Inl (Errorf msg), vaultStorage, rnd1)
                   | Inr formatBytes \<Rightarrow>
                       (let st1 = snd (PutBlock vaultStorage formatBlockID formatBytes);
                            v1 = v\<lparr>storage := st1\<rparr>
                        in case io_ReadFull rnd1 512 of
                             (Inl e, rnd2) \<Rightarrow> (Inl e, st1, rnd2)
                           | (Inr vv, rnd2) \<Rightarrow>
                               (case Put C v1 checksumBlockID vv rnd2 of
                                  (Some e, v2, rnd3) \<Rightarrow> (Inl e, storage v2, rnd3)
                                | (None, v2, rnd3) \<Rightarrow>
                                    (case putJSON C (json_Marshal_repositoryConfig L) v2
                                            repositoryConfigBlock
                                            \<lparr>Connection = conn, repoFormat = repoFmt\<rparr> rnd3 of
                                       (Some e, v3, rnd4) \<Rightarrow> (Inl e, storage v3, rnd4)
                                     | (None, v3, rnd4) \<Rightarrow> (Inr v3, storage v3, rnd4)))))))"

definition Open :: "('c, 'f) library \<Rightarrow> crypto \<Rightarrow> blob_Storage \<Rightarrow> Credentials \<Rightarrow> Vault result" where
  "Open L C st creds =
     (case GetBlock st formatBlockID of
        Inl e \<Rightarrow> Err e
      | Inr f \<Rightarrow>
          (case json_Unmarshal_Format L f of
             Inl msg \<Rightarrow> Err (Errorf msg)
           | Inr fmt \<Rightarrow>
               (let v = \<lparr>storage = st, masterKey = creds (UniqueID fmt), format = fmt\<rparr>
                in case readEncryptedBlock C v checksumBlockID of
                     Err e \<Rightarrow> Err e
                   | Panic s \<Rightarrow> Panic s
                   | Ok _ \<Rightarrow> Ok v)))"

definition OpenWithToken :: "('c, 'f) library \<Rightarrow> crypto \<Rightarrow> string \<Rightarrow> Vault result" where
  "OpenWithToken L C token =
     (case base64_DecodeString L token of
        Inl msg \<Rightarrow> Err (Errorf (''invalid vault base64 token: '' @ msg))
      | Inr b \<Rightarrow>
          (case json_Unmarshal_vaultConfig L b of
             Inl msg \<Rightarrow> Err (Errorf (''invalid vault json token: '' @ msg))
           | Inr vc \<Rightarrow>
               (case blob_NewStorage L (ConnectionInfo vc) of
                  Inl msg \<Rightarrow> Err (Errorf (''cannot open vault storage: '' @ msg))
                | Inr st \<Rightarrow>
                    (case MasterKey L (Key vc) of
                       Inl msg \<Rightarrow> Err (Errorf ''invalid vault token'')
                     | Inr creds \<Rightarrow> Open L C st creds))))"

subsection \<open>Concrete instances\<close>

text \<open>
  Stand-ins for the primitives, and a small vault, on which the theorems below are
  exercised at concrete inputs. The stand-in key derivation, tag and block cipher are
  simple functions of their arguments; they are not the real algorithms.
\<close>

definition demo_crypto :: crypto where
  "demo_crypto =
     \<lparr>hkdf_sha256 = (\<lambda>secret salt info n. take n (secret @ info @ salt)),
      hmac_sha256 = (\<lambda>key written. be_word key + be_word written),
      aes_Encrypt = (\<lambda>key block. block XOR be_word key)\<rparr>"

definition demo_storage :: blob_Storage where
  "demo_storage = \<lparr>blocks = Map.empty, put_fault = (\<lambda>_. None), delete_fault = (\<lambda>_. None)\<rparr>"

definition demo_format :: Format where
  "demo_format =
     \<lparr>Version = ''1'', Encryption = ''aes-256'', Checksum = ''hmac-sha-256'',
      UniqueID = replicate 32 7\<rparr>"

definition demo_vault :: Vault where
  "demo_vault = \<lparr>storage = demo_storage, masterKey = [1, 2, 3], format = demo_format\<rparr>"

text \<open>
  A vault whose item \<open>x\<close> is 40 zero bytes, which no tag authenticates, and a
  vault whose item \<open>x\<close> has 5 bytes, fewer than a tag.
\<close>

definition tampered_vault :: Vault where
  "tampered_vault = demo_vault\<lparr>storage := demo_storage\<lparr>blocks := [''x'' \<mapsto> replicate 40 0]\<rparr>\<rparr>"

definition short_vault :: Vault where
  "short_vault =
     \<lparr>storage = demo_storage\<lparr>blocks := [''x'' \<mapsto> [1, 2, 3, 4, 5]]\<rparr>,
      masterKey = [1, 2, 3],
      format = demo_format\<lparr>Encryption := ''aes-128''\<rparr>\<rparr>"

text \<open>
  A vault with AES-256 whose item \<open>x\<close> was cut to 31 bytes, one byte short of a tag.
\<close>

definition truncated_vault :: Vault where
  "truncated_vault = demo_vault\<lparr>storage := demo_storage\<lparr>blocks := [''x'' \<mapsto> replicate 31 0]\<rparr>\<rparr>"

text \<open>
  A vault whose item \<open>x\<close> is exactly the 32-byte tag of the empty string under its
  own checksum key: the tag verifies, and no room is left for an IV.
\<close>

definition tag_only_vault :: Vault where
  "tag_only_vault =
     short_vault\<lparr>storage := demo_storage\<lparr>blocks :=
       [''x'' \<mapsto> be_bytes 32 (hmac_sha256 demo_crypto
                                 (deriveKey demo_crypto short_vault purposeChecksumSecret 32) [])]\<rparr>\<rparr>"

text \<open>
  Stand-ins for the collaborators of \<^verbatim>\<open>Create\<close>, \<^verbatim>\<open>Open\<close> and
  \<^verbatim>\<open>OpenWithToken\<close>: two raw-key credentials, a codec for the format descriptor that
  writes its four fields one after the other, and decoders that answer on the few tokens
  used below as Go's functions do (\<open>eA\<close> is the base64 of \<open>x\<close>, \<open>e30\<close> of
  \<open>{}\<close>, the long token of a configuration with a key of three bytes). A store that
  refuses to write the block \<open>format\<close>, and \<^verbatim>\<open>Create\<close> run on it.
\<close>

definition demo_creds :: Credentials where
  "demo_creds = (\<lambda>uniqueID. [1, 2, 3])"

definition other_creds :: Credentials where
  "other_creds = (\<lambda>uniqueID. [4, 5, 6])"

definition demo_Marshal_Format :: "Format \<Rightarrow> string + bytes" where
  "demo_Marshal_Format f =
     Inr (map of_char (Version f) @ [10] @ map of_char (Encryption f) @ [10]
            @ map of_char (Checksum f) @ [10] @ UniqueID f)"

definition demo_Unmarshal_Format :: "bytes \<Rightarrow> string + Format" where
  "demo_Unmarshal_Format b =
     (let f1 = takeWhile (\<lambda>x. x \<noteq> 10) b; r1 = drop (Suc (length f1)) b;
          f2 = takeWhile (\<lambda>x. x \<noteq> 10) r1; r2 = drop (Suc (length f2)) r1;
          f3 = takeWhile (\<lambda>x. x \<noteq> 10) r2; r3 = drop (Suc (length f3)) r2
      in if length (filter (\<lambda>x. x = 10) b) < 3 then Inl ''unexpected end of JSON input''
         else Inr \<lparr>Version = map (\<lambda>x. char_of (unat x)) f1,
                   Encryption = map (\<lambda>x. char_of (unat x)) f2,
                   Checksum = map (\<lambda>x. char_of (unat x)) f3,
                   UniqueID = r3\<rparr>)"

definition demo_library :: "(string, string) library" where
  "demo_library =
     \<lparr>json_Marshal_Format = demo_Marshal_Format,
      json_Unmarshal_Format = demo_Unmarshal_Format,
      json_Marshal_repositoryConfig = (\<lambda>rc. Inr (map of_char (Connection rc @ '' '' @ repoFormat rc))),
      base64_DecodeString =
        (\<lambda>token. if token = ''eA'' then Inr [120]
                 else if token = ''e30'' then Inr [123, 125]
                 else if token = ''eyJjb25uZWN0aW9uIjoiZmlsZXN5c3RlbSIsImtleSI6IkFRSUQifQ''
                   then Inr [123, 34, 99, 111, 110, 110, 101, 99, 116, 105, 111, 110, 34, 58, 34,
                             102, 105, 108, 101, 115, 121, 115, 116, 101, 109, 34, 44, 34, 107,
                             101, 121, 34, 58, 34, 65, 81, 73, 68, 34, 125]
                 else Inl ''illegal base64 data at input byte 0''),
      json_Unmarshal_vaultConfig =
        (\<lambda>b. if b = [123, 125] then Inr \<lparr>ConnectionInfo = [], Key = []\<rparr>
             else if b = [123, 34, 99, 111, 110, 110, 101, 99, 116, 105, 111, 110, 34, 58, 34,
                          102, 105, 108, 101, 115, 121, 115, 116, 101, 109, 34, 44, 34, 107,
                          101, 121, 34, 58, 34, 65, 81, 73, 68, 34, 125]
               then Inr \<lparr>ConnectionInfo = ''filesystem'', Key = [1, 2, 3]\<rparr>
             else Inl ''invalid character 'x' looking for beginning of value''),
      blob_NewStorage =
        (\<lambda>c. if c = ''filesystem'' then Inr demo_storage else Inl ''unknown storage type''),
      MasterKey =
        (\<lambda>key. if length key < 16 then Inl ''master key too short'' else Inr (\<lambda>uniqueID. key))\<rparr>"

definition refusing_storage :: blob_Storage where
  "refusing_storage =
     demo_storage\<lparr>put_fault := (\<lambda>blockID. if blockID = ''format'' then Some (Errorf ''disk full'') else None)\<rparr>"


definition created_refused :: "(error + Vault) \<times> blob_Storage \<times> bytes" where
  "created_refused = Create demo_library demo_crypto refusing_storage demo_format demo_creds
               (Some ''filesystem'') ''repo-format'' (replicate 576 9)"


text \<open>
  A store left by an earlier vault without encryption: it holds that vault's format
  block and refuses to overwrite it, and accepts every other write. \<^verbatim>\<open>Create\<close> run
  on it with AES-256.
\<close>

definition stale_format :: Format where
  "stale_format =
     \<lparr>Version = ''1'', Encryption = ''none'', Checksum = ''hmac-sha-256'',
      UniqueID = replicate 32 5\<rparr>"

definition stale_formatBytes :: bytes where
  "stale_formatBytes =
     map of_char ''1'' @ [10] @ map of_char ''none'' @ [10] @ map of_char ''hmac-sha-256'' @ [10]
       @ replicate 32 5"

definition stale_storage :: blob_Storage where
  "stale_storage = refusing_storage\<lparr>blocks := [''format'' \<mapsto> stale_formatBytes]\<rparr>"

definition created_stale :: "(error + Vault) \<times> blob_Storage \<times> bytes" where
  "created_stale = Create demo_library demo_crypto stale_storage demo_format demo_creds
               (Some ''filesystem'') ''repo-format'' (replicate 576 9)"

section \<open>Properties\<close>

subsection \<open>Key stream, buffers and the choice of algorithms\<close>

lemma length_be_bytes: "length (be_bytes n w) = n"
  by (simp add: be_bytes_def)

lemma length_keystream: "length (keystream E ctr n) = 16 * n"
  by (induction n arbitrary: ctr) (simp_all add: length_be_bytes)

lemma length_XORKeyStream: "length (XORKeyStream blk iv src) = length src"
  by (simp add: XORKeyStream_def length_keystream)

lemma xor_twice: "length xs \<le> length ks \<Longrightarrow> map2 (XOR) (map2 (XOR) xs ks) ks = (xs :: bytes)"
proof (induction xs arbitrary: ks)
  case Nil
  then show ?case by simp
next
  case (Cons x xs)
  then obtain k ks' where ks: "ks = k # ks'" by (cases ks) auto
  with Cons show ?case by (simp add: xor.assoc)
qed

lemma XORKeyStream_twice: "XORKeyStream blk iv (XORKeyStream blk iv src) = src"
proof -
  have "length src \<le> length (keystream (Encrypt blk) (be_word iv) ((length src + 15) div 16))"
    by (simp add: length_keystream)
  then show ?thesis
    by (simp add: XORKeyStream_def length_keystream xor_twice)
qed

lemma length_deriveKey: "length (deriveKey C v purpose n) = n"
  by (simp add: deriveKey_def copy_at_def)

lemma newCipher_storage: "newCipher C (v\<lparr>storage := st\<rparr>) = newCipher C v"
  by (simp add: newCipher_def deriveKey_def)

lemma newChecksum_storage: "newChecksum C (v\<lparr>storage := st\<rparr>) = newChecksum C v"
  by (simp add: newChecksum_def deriveKey_def)

lemma newCipher_none: "Encryption (format v) = ''none'' \<Longrightarrow> newCipher C v = Inr None"
  by (simp add: newCipher_def)

lemma newCipher_aes:
  assumes "Encryption (format v) \<in> {''aes-128'', ''aes-192'', ''aes-256''}"
  shows "\<exists>blk. newCipher C v = Inr (Some blk) \<and> BlockSize blk = 16"
  using assms by (auto simp: newCipher_def aes_NewCipher_def length_deriveKey)

lemma newCipher_Some_BlockSize: "newCipher C v = Inr (Some blk) \<Longrightarrow> BlockSize blk = 16"
  by (auto simp: newCipher_def aes_NewCipher_def length_deriveKey split: if_splits)

lemma newChecksum_hmac:
  "Checksum (format v) = ''hmac-sha-256'' \<Longrightarrow>
   newChecksum C v = Inr (hmac_New C (deriveKey C v purposeChecksumSecret 32))"
  by (simp add: newChecksum_def)

lemma newChecksum_Size: "newChecksum C v = Inr hash \<Longrightarrow> Size hash = 32 \<and> (\<forall>x. length (Sum hash x) = 32)"
  by (auto simp: newChecksum_def hmac_New_def length_be_bytes split: if_splits)

lemma Put_sealed:
  assumes nc: "newCipher C v = Inr (Some blk)"
      and ck: "newChecksum C v = Inr hash"
      and rnd: "16 \<le> length rnd"
  shows "Put C v itemID content rnd =
           (case PutBlock (storage v) itemID
                   (take 16 rnd @ XORKeyStream blk (take 16 rnd) content
                      @ Sum hash (take 16 rnd @ XORKeyStream blk (take 16 rnd) content)) of
              (r, st) \<Rightarrow> (r, v\<lparr>storage := st\<rparr>, drop 16 rnd))"
proof -
  have bs: "BlockSize blk = 16" using nc by (rule newCipher_Some_BlockSize)
  have sz: "Size hash = 32" and ln: "\<And>x. length (Sum hash x) = 32"
    using newChecksum_Size [OF ck] by simp_all
  let ?iv = "take 16 rnd"
  let ?ct = "XORKeyStream blk ?iv content"
  have liv: "length ?iv = 16" using rnd by simp
  have lct: "length ?ct = length content" by (rule length_XORKeyStream)
  have buf2: "take (16 + length content)
                (copy_at (copy_at (replicate (48 + length content) 0) 0 ?iv) 16 ?ct) = ?iv @ ?ct"
    using liv lct by (simp add: copy_at_def)
  have buf3: "copy_at (copy_at (copy_at (replicate (48 + length content) 0) 0 ?iv) 16 ?ct)
                (16 + length content) (Sum hash (?iv @ ?ct)) = ?iv @ ?ct @ Sum hash (?iv @ ?ct)"
    using liv lct ln [of "?iv @ ?ct"] by (simp add: copy_at_def)
  show ?thesis
    by (simp add: Put_def nc ck bs sz io_ReadFull_def rnd Let_def buf2 buf3)
qed

lemma read_sealed:
  assumes nc: "newCipher C v = Inr (Some blk)"
      and ck: "newChecksum C v = Inr hash"
      and st: "blocks (storage v) itemID = Some (iv @ ct @ Sum hash (iv @ ct))"
      and liv: "length iv = 16"
  shows "readEncryptedBlock C v itemID = Ok (XORKeyStream blk iv ct)"
proof -
  have bs: "BlockSize blk = 16" using nc by (rule newCipher_Some_BlockSize)
  have sz: "Size hash = 32" and ln: "\<And>x. length (Sum hash x) = 32"
    using newChecksum_Size [OF ck] by simp_all
  show ?thesis
    by (simp add: readEncryptedBlock_def GetBlock_def st nc ck bs sz ln liv Let_def hmac_Equal_def)
qed


lemma readEncryptedBlock_encrypted:
  assumes nc: "newCipher C v = Inr (Some blk)"
      and ck: "newChecksum C v = Inr hash"
      and st: "GetBlock (storage v) itemID = Inr content"
  shows "readEncryptedBlock C v itemID =
           (if length content < 32 then Panic ''slice bounds out of range''
            else if Sum hash (take (length content - 32) content) \<noteq> drop (length content - 32) content
              then Err (Errorf ''cannot read encrypted block: incorrect checksum'')
            else if length content < 48 then Panic ''makeslice: len out of range''
            else Ok (XORKeyStream blk (take 16 content) (drop 16 (take (length content - 32) content))))"
proof -
  have bs: "BlockSize blk = 16" using nc by (rule newCipher_Some_BlockSize)
  have sz: "Size hash = 32" using newChecksum_Size [OF ck] by simp
  have n: "nat (int (length content) - 32) = length content - 32" by simp
  show ?thesis
    by (auto simp add: readEncryptedBlock_def st nc ck bs sz Let_def hmac_Equal_def n)
qed

subsection \<open>The encrypted block\<close>

text \<open>
  C1. Round trip. For every payload \<open>p\<close> and every supported pair of algorithms
  (encryption \<open>none\<close>, \<open>aes-128\<close>, \<open>aes-192\<close> or \<open>aes-256\<close>, checksum
  \<open>hmac-sha-256\<close>): when the store accepts the write and, with a cipher, the random
  source delivers the 16 bytes of the IV, \<^verbatim>\<open>Put\<close> succeeds and leaves the format and
  the master key of the vault as they are, and \<^verbatim>\<open>readEncryptedBlock\<close> of the same item
  returns exactly \<open>p\<close>.
\<close>

theorem Put_readEncryptedBlock_roundtrip:
  assumes enc: "Encryption (format v) \<in> {''none'', ''aes-128'', ''aes-192'', ''aes-256''}"
      and ck: "Checksum (format v) = ''hmac-sha-256''"
      and wr: "put_fault (storage v) itemID = None"
      and rnd: "Encryption (format v) \<noteq> ''none'' \<longrightarrow> 16 \<le> length rnd"
  shows "\<exists>v' rnd'. Put C v itemID p rnd = (None, v', rnd')
            \<and> masterKey v' = masterKey v \<and> format v' = format v
            \<and> readEncryptedBlock C v' itemID = Ok p"
proof (cases "Encryption (format v) = ''none''")
  case True
  then have nc: "newCipher C v = Inr None" by (rule newCipher_none)
  let ?v' = "v\<lparr>storage := (storage v)\<lparr>blocks := (blocks (storage v))(itemID \<mapsto> p)\<rparr>\<rparr>"
  have "Put C v itemID p rnd = (None, ?v', rnd)"
    by (simp add: Put_def nc PutBlock_def wr)
  moreover have "readEncryptedBlock C ?v' itemID = Ok p"
    by (simp add: readEncryptedBlock_def GetBlock_def newCipher_storage nc)
  ultimately show ?thesis by simp
next
  case False
  with enc have "Encryption (format v) \<in> {''aes-128'', ''aes-192'', ''aes-256''}" by auto
  then obtain blk where nc: "newCipher C v = Inr (Some blk)"
    using newCipher_aes by blast
  from ck obtain hash where nh: "newChecksum C v = Inr hash"
    by (simp add: newChecksum_hmac)
  from False rnd have r16: "16 \<le> length rnd" by simp
  let ?iv = "take 16 rnd"
  let ?ct = "XORKeyStream blk ?iv p"
  let ?blob = "?iv @ ?ct @ Sum hash (?iv @ ?ct)"
  let ?v' = "v\<lparr>storage := (storage v)\<lparr>blocks := (blocks (storage v))(itemID \<mapsto> ?blob)\<rparr>\<rparr>"
  have put: "Put C v itemID p rnd = (None, ?v', drop 16 rnd)"
    by (simp add: Put_sealed [OF nc nh r16] PutBlock_def wr)
  have nc': "newCipher C ?v' = Inr (Some blk)" by (simp add: newCipher_storage nc)
  have nh': "newChecksum C ?v' = Inr hash" by (simp add: newChecksum_storage nh)
  have "readEncryptedBlock C ?v' itemID = Ok (XORKeyStream blk ?iv ?ct)"
    by (rule read_sealed [OF nc' nh']) (simp_all add: r16)
  then have "readEncryptedBlock C ?v' itemID = Ok p"
    by (simp add: XORKeyStream_twice)
  with put show ?thesis by simp
qed

theorem Put_readEncryptedBlock_roundtrip_witness:
  "Encryption (format demo_vault) \<in> {''none'', ''aes-128'', ''aes-192'', ''aes-256''}
   \<and> Checksum (format demo_vault) = ''hmac-sha-256''
   \<and> put_fault (storage demo_vault) ''x'' = None
   \<and> 16 \<le> length (replicate 16 (9 :: byte))
   \<and> (\<exists>v' rnd'. Put demo_crypto demo_vault ''x'' [104, 101, 108, 108, 111] (replicate 16 9) = (None, v', rnd')
            \<and> masterKey v' = masterKey demo_vault \<and> format v' = format demo_vault
            \<and> readEncryptedBlock demo_crypto v' ''x'' = Ok [104, 101, 108, 108, 111])"
proof -
  have h: "Encryption (format demo_vault) \<in> {''none'', ''aes-128'', ''aes-192'', ''aes-256''}"
          "Checksum (format demo_vault) = ''hmac-sha-256''"
          "put_fault (storage demo_vault) ''x'' = None"
          "Encryption (format demo_vault) \<noteq> ''none'' \<longrightarrow> 16 \<le> length (replicate 16 (9 :: byte))"
    by (simp_all add: demo_vault_def demo_format_def demo_storage_def)
  have "16 \<le> length (replicate 16 (9 :: byte))" by simp
  with h Put_readEncryptedBlock_roundtrip [OF h, of demo_crypto "[104, 101, 108, 108, 111]"]
  show ?thesis by blast
qed

text \<open>
  C3. Layout. With AES and HMAC-SHA-256, the block \<^verbatim>\<open>Put\<close> hands to the store is
  \<open>IV || ciphertext || tag\<close>: the IV is the 16 bytes read from the random source
  (the block size of the cipher), the ciphertext is the key stream applied to \<open>p\<close>
  and has the length of \<open>p\<close>, and the tag is the 32-byte HMAC, under the derived
  checksum key, of \<open>IV || ciphertext\<close>: neither the plaintext nor the tag itself
  is part of what is authenticated.
\<close>

theorem Put_block_layout:
  assumes enc: "Encryption (format v) \<in> {''aes-128'', ''aes-192'', ''aes-256''}"
      and ck: "Checksum (format v) = ''hmac-sha-256''"
      and rnd: "16 \<le> length rnd"
  shows "\<exists>blk hash iv ciphertext tag.
           newCipher C v = Inr (Some blk) \<and> newChecksum C v = Inr hash
         \<and> Put C v itemID p rnd =
             (case PutBlock (storage v) itemID (iv @ ciphertext @ tag) of
                (r, st) \<Rightarrow> (r, v\<lparr>storage := st\<rparr>, drop 16 rnd))
         \<and> iv = take 16 rnd \<and> length iv = BlockSize blk \<and> BlockSize blk = 16
         \<and> ciphertext = XORKeyStream blk iv p \<and> length ciphertext = length p
         \<and> hash = hmac_New C (deriveKey C v purposeChecksumSecret 32)
         \<and> tag = Sum hash (iv @ ciphertext) \<and> length tag = Size hash \<and> Size hash = 32"
proof -
  from enc obtain blk where nc: "newCipher C v = Inr (Some blk)" and bs: "BlockSize blk = 16"
    using newCipher_aes by blast
  from ck have nh: "newChecksum C v = Inr (hmac_New C (deriveKey C v purposeChecksumSecret 32))"
    by (rule newChecksum_hmac)
  show ?thesis
    using nc nh bs rnd Put_sealed [OF nc nh rnd, of itemID p] newChecksum_Size [OF nh]
    by (simp add: length_XORKeyStream)
qed


theorem Put_block_layout_witness:
  "Encryption (format demo_vault) \<in> {''aes-128'', ''aes-192'', ''aes-256''}
   \<and> Checksum (format demo_vault) = ''hmac-sha-256''
   \<and> 16 \<le> length (replicate 16 (9 :: byte))
   \<and> (\<exists>blk hash iv ciphertext tag.
         Put demo_crypto demo_vault ''x'' [104, 101, 108, 108, 111] (replicate 16 9) =
             (case PutBlock (storage demo_vault) ''x'' (iv @ ciphertext @ tag) of
                (r, st) \<Rightarrow> (r, demo_vault\<lparr>storage := st\<rparr>, drop 16 (replicate 16 9)))
         \<and> length iv = 16 \<and> length ciphertext = 5 \<and> length tag = 32
         \<and> tag = Sum hash (iv @ ciphertext)
         \<and> newChecksum demo_crypto demo_vault = Inr hash
         \<and> newCipher demo_crypto demo_vault = Inr (Some blk))"
proof -
  have h: "Encryption (format demo_vault) \<in> {''aes-128'', ''aes-192'', ''aes-256''}"
          "Checksum (format demo_vault) = ''hmac-sha-256''"
          "16 \<le> length (replicate 16 (9 :: byte))"
    by (simp_all add: demo_vault_def demo_format_def)
  from Put_block_layout [OF h, of demo_crypto "''x''" "[104, 101, 108, 108, 111]"]
  obtain blk hash iv ciphertext tag where
    "newCipher demo_crypto demo_vault = Inr (Some blk)"
    "newChecksum demo_crypto demo_vault = Inr hash"
    "Put demo_crypto demo_vault ''x'' [104, 101, 108, 108, 111] (replicate 16 9) =
             (case PutBlock (storage demo_vault) ''x'' (iv @ ciphertext @ tag) of
                (r, st) \<Rightarrow> (r, demo_vault\<lparr>storage := st\<rparr>, drop 16 (replicate 16 9)))"
    "length iv = 16" "length ciphertext = 5" "length tag = 32" "tag = Sum hash (iv @ ciphertext)"
    by auto
  with h show ?thesis by blast
qed


text \<open>
  C5. Encryption \<open>none\<close>. \<^verbatim>\<open>Put\<close> hands the payload itself to the store and leaves
  the random source untouched (no IV, no tag), whatever checksum is configured;
  \<^verbatim>\<open>readEncryptedBlock\<close> and \<^verbatim>\<open>Get\<close> return the stored bytes as they are.
\<close>

theorem encryption_none_identity:
  assumes "Encryption (format v) = ''none''"
  shows "Put C v itemID p rnd =
           (case PutBlock (storage v) itemID p of (r, st) \<Rightarrow> (r, v\<lparr>storage := st\<rparr>, rnd))
       \<and> readEncryptedBlock C v itemID =
           (case GetBlock (storage v) itemID of Inl e \<Rightarrow> Err e | Inr content \<Rightarrow> Ok content)
       \<and> Get C v itemID = readEncryptedBlock C v itemID
       \<and> (put_fault (storage v) itemID = None \<longrightarrow>
           (\<exists>v'. Put C v itemID p rnd = (None, v', rnd)
              \<and> blocks (storage v') itemID = Some p \<and> Get C v' itemID = Ok p))"
  using assms
  by (simp add: Put_def readEncryptedBlock_def Get_def newCipher_def PutBlock_def GetBlock_def
               split: sum.splits)

theorem encryption_none_identity_witness:
  "Encryption (format (demo_vault\<lparr>format := demo_format\<lparr>Encryption := ''none''\<rparr>\<rparr>)) = ''none''
   \<and> put_fault (storage (demo_vault\<lparr>format := demo_format\<lparr>Encryption := ''none''\<rparr>\<rparr>)) ''x'' = None
   \<and> (\<exists>v'. Put demo_crypto (demo_vault\<lparr>format := demo_format\<lparr>Encryption := ''none''\<rparr>\<rparr>)
                 ''x'' [104, 101, 108, 108, 111] [] = (None, v', [])
            \<and> blocks (storage v') ''x'' = Some [104, 101, 108, 108, 111]
            \<and> Get demo_crypto v' ''x'' = Ok [104, 101, 108, 108, 111])"
proof -
  let ?v = "demo_vault\<lparr>format := demo_format\<lparr>Encryption := ''none''\<rparr>\<rparr>"
  have enc: "Encryption (format ?v) = ''none''" by simp
  have wr: "put_fault (storage ?v) ''x'' = None"
    by (simp add: demo_vault_def demo_storage_def)
  from encryption_none_identity [OF enc, of demo_crypto "''x''" "[104, 101, 108, 108, 111]" "[]"] wr
  have "\<exists>v'. Put demo_crypto ?v ''x'' [104, 101, 108, 108, 111] [] = (None, v', [])
            \<and> blocks (storage v') ''x'' = Some [104, 101, 108, 108, 111]
            \<and> Get demo_crypto v' ''x'' = Ok [104, 101, 108, 108, 111]"
    by blast
  with enc wr show ?thesis by blast
qed

subsection \<open>Typed items and removal\<close>

text \<open>
  C6. \<^verbatim>\<open>getJSON\<close> swallows a failed read. Whenever \<^verbatim>\<open>readEncryptedBlock\<close> returns
  an error (the block is absent, an algorithm is unsupported, the tag does not verify),
  \<^verbatim>\<open>getJSON\<close> returns \<^verbatim>\<open>nil\<close> and the value behind \<open>content\<close> is as the caller
  passed it; the result does not depend on \<^verbatim>\<open>json.Unmarshal\<close>, which is not called.
\<close>

theorem getJSON_swallows_read_error:
  assumes "readEncryptedBlock C v itemID = Err e"
  shows "getJSON C json_Unmarshal v itemID content = (Ok (), content)"
  using assms by (simp add: getJSON_def)

theorem getJSON_swallows_read_error_witness:
  "readEncryptedBlock demo_crypto demo_vault ''x'' = Err NotFound
   \<and> readEncryptedBlock demo_crypto tampered_vault ''x'' =
        Err (Errorf ''cannot read encrypted block: incorrect checksum'')
   \<and> readEncryptedBlock demo_crypto (tampered_vault\<lparr>format := demo_format\<lparr>Encryption := ''aes-512''\<rparr>\<rparr>) ''x''
        = Err (Errorf ''unsupported encryption format: aes-512'')
   \<and> getJSON demo_crypto (\<lambda>j c. (None, j)) demo_vault ''x'' [] = (Ok (), [])
   \<and> getJSON demo_crypto (\<lambda>j c. (None, j)) tampered_vault ''x'' [] = (Ok (), [])
   \<and> getJSON demo_crypto (\<lambda>j c. (None, j))
         (tampered_vault\<lparr>format := demo_format\<lparr>Encryption := ''aes-512''\<rparr>\<rparr>) ''x'' [] = (Ok (), [])"
proof -
  have a: "readEncryptedBlock demo_crypto demo_vault ''x'' = Err NotFound"
    by (simp add: readEncryptedBlock_def GetBlock_def demo_vault_def demo_storage_def)
  have b: "readEncryptedBlock demo_crypto tampered_vault ''x'' =
        Err (Errorf ''cannot read encrypted block: incorrect checksum'')"
    by code_simp
  have c: "readEncryptedBlock demo_crypto (tampered_vault\<lparr>format := demo_format\<lparr>Encryption := ''aes-512''\<rparr>\<rparr>) ''x''
        = Err (Errorf ''unsupported encryption format: aes-512'')"
    by (simp add: readEncryptedBlock_def GetBlock_def newCipher_def tampered_vault_def
                  demo_vault_def demo_storage_def)
  show ?thesis
    using a b c getJSON_swallows_read_error [OF a, of "\<lambda>j c. (None, j)" "[]"]
      getJSON_swallows_read_error [OF b, of "\<lambda>j c. (None, j)" "[]"]
      getJSON_swallows_read_error [OF c, of "\<lambda>j c. (None, j)" "[]"]
    by simp
qed

text \<open>
  C9. \<^verbatim>\<open>Remove\<close> of \<open>format\<close>, \<open>checksum\<close> or \<open>repo\<close> returns the error
  \<open>item cannot be deleted: <itemID>\<close> and the vault, with its store, is as before,
  whatever the store would have answered to a deletion. For every other id the result is
  that of \<^verbatim>\<open>DeleteBlock\<close> of the store; after a removal that succeeded the block is
  absent and \<^verbatim>\<open>Get\<close> of the id returns the error \<open>NotFound\<close>.
\<close>

theorem Remove_reserved_items:
  "(itemID \<in> {''format'', ''checksum'', ''repo''} \<longrightarrow>
      Remove v itemID = (Some (Errorf (''item cannot be deleted: '' @ itemID)), v))
   \<and> (itemID \<notin> {''format'', ''checksum'', ''repo''} \<longrightarrow>
      Remove v itemID = (case DeleteBlock (storage v) itemID of (r, st) \<Rightarrow> (r, v\<lparr>storage := st\<rparr>)))
   \<and> (itemID \<notin> {''format'', ''checksum'', ''repo''} \<and> Remove v itemID = (None, v') \<longrightarrow>
      blocks (storage v') itemID = None \<and> Get C v' itemID = Err NotFound)"
  by (auto simp: Remove_def formatBlockID_def checksumBlockID_def repositoryConfigBlock_def
                 DeleteBlock_def Get_def readEncryptedBlock_def GetBlock_def
           split: option.splits)

theorem Remove_reserved_items_witness:
  "Remove tampered_vault ''format'' = (Some (Errorf ''item cannot be deleted: format''), tampered_vault)
   \<and> Remove tampered_vault ''checksum'' = (Some (Errorf ''item cannot be deleted: checksum''), tampered_vault)
   \<and> Remove tampered_vault ''repo'' = (Some (Errorf ''item cannot be deleted: repo''), tampered_vault)
   \<and> ''x'' \<notin> {''format'', ''checksum'', ''repo''}
   \<and> Remove tampered_vault ''x'' = (None, demo_vault)
   \<and> Get demo_crypto demo_vault ''x'' = Err NotFound"
proof -
  have x: "''x'' \<notin> {''format'', ''checksum'', ''repo''}" by simp
  have rm: "Remove tampered_vault ''x'' = (None, demo_vault)"
    by (simp add: Remove_def formatBlockID_def checksumBlockID_def repositoryConfigBlock_def
                  DeleteBlock_def tampered_vault_def demo_vault_def demo_storage_def)
  from Remove_reserved_items [of "''x''" tampered_vault demo_vault demo_crypto] x rm
  have g: "Get demo_crypto demo_vault ''x'' = Err NotFound" by blast
  show ?thesis
    using x rm g Remove_reserved_items [of "''format''" tampered_vault]
      Remove_reserved_items [of "''checksum''" tampered_vault]
      Remove_reserved_items [of "''repo''" tampered_vault]
    by simp
qed


subsection \<open>Blocks shorter than a tag\<close>

lemma readEncryptedBlock_short:
  assumes nc: "newCipher C v = Inr (Some blk)"
      and ck: "newChecksum C v = Inr hash"
      and st: "GetBlock (storage v) itemID = Inr content"
      and sh: "length content < 32"
  shows "readEncryptedBlock C v itemID = Panic ''slice bounds out of range''"
  using readEncryptedBlock_encrypted [OF nc ck st] sh
  by simp

lemma readEncryptedBlock_tag_only:
  assumes nc: "newCipher C v = Inr (Some blk)"
      and ck: "newChecksum C v = Inr hash"
      and st: "GetBlock (storage v) itemID = Inr content"
      and ln: "32 \<le> length content" "length content < 48"
      and ok: "Sum hash (take (length content - 32) content) = drop (length content - 32) content"
  shows "readEncryptedBlock C v itemID = Panic ''makeslice: len out of range''"
  using readEncryptedBlock_encrypted [OF nc ck st] ln ok
  by simp

text \<open>
  C2. Verify, then decrypt, fails on a block shorter than a tag. With AES-256 and
  HMAC-SHA-256 and a stored block of 31 bytes, \<^verbatim>\<open>readEncryptedBlock\<close> panics at
  \<^verbatim>\<open>content[0:p]\<close> before any MAC is computed or compared: the block is not rejected
  with the error \<open>cannot read encrypted block: incorrect checksum\<close>. For blocks of
  32 bytes and more, \<open>readEncryptedBlock_encrypted\<close> gives the result: the error when
  the recomputed tag differs from the last 32 bytes, the plaintext only when it matches.
\<close>

theorem readEncryptedBlock_truncated_block:
  "GetBlock (storage truncated_vault) ''x'' = Inr (replicate 31 0)
   \<and> Encryption (format truncated_vault) = ''aes-256''
   \<and> Checksum (format truncated_vault) = ''hmac-sha-256''
   \<and> readEncryptedBlock demo_crypto truncated_vault ''x'' = Panic ''slice bounds out of range''
   \<and> readEncryptedBlock demo_crypto truncated_vault ''x''
        \<noteq> Err (Errorf ''cannot read encrypted block: incorrect checksum'')"
proof -
  have f: "Encryption (format truncated_vault) = ''aes-256''"
          "Checksum (format truncated_vault) = ''hmac-sha-256''"
    by (simp_all add: truncated_vault_def demo_vault_def demo_format_def)
  then have "Encryption (format truncated_vault) \<in> {''aes-128'', ''aes-192'', ''aes-256''}" by simp
  then obtain blk where nc: "newCipher demo_crypto truncated_vault = Inr (Some blk)"
    using newCipher_aes by blast
  have nh: "newChecksum demo_crypto truncated_vault
              = Inr (hmac_New demo_crypto (deriveKey demo_crypto truncated_vault purposeChecksumSecret 32))"
    by (rule newChecksum_hmac) (rule f)
  have st: "GetBlock (storage truncated_vault) ''x'' = Inr (replicate 31 0)"
    by (simp add: GetBlock_def truncated_vault_def)
  have "readEncryptedBlock demo_crypto truncated_vault ''x'' = Panic ''slice bounds out of range''"
    by (rule readEncryptedBlock_short [OF nc nh st]) simp
  with f st show ?thesis by simp
qed

text \<open>
  C10. No length check precedes the slice expressions of \<^verbatim>\<open>readEncryptedBlock\<close>.
  With AES-128 and a stored block of 5 bytes, \<open>p = 5 - 32\<close> is negative and
  \<^verbatim>\<open>content[0:p]\<close> panics; with a stored block of 32 bytes that is a valid tag of the
  empty string, the comparison succeeds and \<^verbatim>\<open>make([]byte, 32 - 16 - 32)\<close> panics. In
  both cases \<^verbatim>\<open>Get\<close> does not return an error.
\<close>

theorem Get_short_blob_panics:
  "Get demo_crypto short_vault ''x'' = Panic ''slice bounds out of range''
   \<and> Get demo_crypto tag_only_vault ''x'' = Panic ''makeslice: len out of range''"
proof -
  have enc: "Encryption (format short_vault) \<in> {''aes-128'', ''aes-192'', ''aes-256''}"
    by (simp add: short_vault_def)
  then obtain blk where nc: "newCipher demo_crypto short_vault = Inr (Some blk)"
    using newCipher_aes by blast
  define hash where "hash = hmac_New demo_crypto (deriveKey demo_crypto short_vault purposeChecksumSecret 32)"
  have nh: "newChecksum demo_crypto short_vault = Inr hash"
    unfolding hash_def by (rule newChecksum_hmac) (simp add: short_vault_def demo_format_def)
  have st: "GetBlock (storage short_vault) ''x'' = Inr [1, 2, 3, 4, 5]"
    by (simp add: GetBlock_def short_vault_def)
  have a: "Get demo_crypto short_vault ''x'' = Panic ''slice bounds out of range''"
    unfolding Get_def by (rule readEncryptedBlock_short [OF nc nh st]) simp
  have nc': "newCipher demo_crypto tag_only_vault = Inr (Some blk)"
    by (simp add: tag_only_vault_def newCipher_storage nc)
  have nh': "newChecksum demo_crypto tag_only_vault = Inr hash"
    by (simp add: tag_only_vault_def newChecksum_storage nh)
  have st': "GetBlock (storage tag_only_vault) ''x'' = Inr (Sum hash [])"
    by (simp add: GetBlock_def tag_only_vault_def hash_def hmac_New_def)
  have l: "length (Sum hash []) = 32"
    by (simp add: hash_def hmac_New_def length_be_bytes)
  have b: "Get demo_crypto tag_only_vault ''x'' = Panic ''makeslice: len out of range''"
    unfolding Get_def by (rule readEncryptedBlock_tag_only [OF nc' nh' st']) (simp_all add: l)
  from a b show ?thesis by simp
qed

subsection \<open>Create and Open\<close>

lemma put_fault_PutBlock: "put_fault (snd (PutBlock st blockID content)) = put_fault st"
  by (simp add: PutBlock_def split: option.splits)

lemma Create_encrypted:
  assumes conn: "repoStorage = Some conn"
      and rnd: "576 \<le> length rnd"
      and fmt: "fmt = vaultFormat\<lparr>Version := ''1'', UniqueID := take 32 rnd\<rparr>"
      and jf: "json_Marshal_Format L fmt = Inr formatBytes"
      and jr: "json_Marshal_repositoryConfig L \<lparr>Connection = conn, repoFormat = repoFmt\<rparr> = Inr repoBytes"
      and st1: "st1 = snd (PutBlock vaultStorage formatBlockID formatBytes)"
      and v1: "v1 = \<lparr>storage = st1, masterKey = vaultCreds (take 32 rnd), format = fmt\<rparr>"
      and nc: "newCipher C v1 = Inr (Some blk)"
      and nh: "newChecksum C v1 = Inr hash"
      and wc: "put_fault vaultStorage checksumBlockID = None"
      and wr: "put_fault vaultStorage repositoryConfigBlock = None"
      and iv1: "iv1 = take 16 (drop 544 rnd)"
      and iv2: "iv2 = take 16 (drop 560 rnd)"
      and b1: "body1 = iv1 @ XORKeyStream blk iv1 (take 512 (drop 32 rnd))"
      and b2: "body2 = iv2 @ XORKeyStream blk iv2 repoBytes"
      and st3: "st3 = st1\<lparr>blocks := (blocks st1)(checksumBlockID \<mapsto> body1 @ Sum hash body1,
                                                 repositoryConfigBlock \<mapsto> body2 @ Sum hash body2)\<rparr>"
  shows "Create L C vaultStorage vaultFormat vaultCreds repoStorage repoFmt rnd
           = (Inr (v1\<lparr>storage := st3\<rparr>), st3, drop 576 rnd)"
proof -
  let ?st2 = "st1\<lparr>blocks := (blocks st1)(checksumBlockID \<mapsto> body1 @ Sum hash body1)\<rparr>"
  have r1: "io_ReadFull rnd 32 = (Inr (take 32 rnd), drop 32 rnd)"
    using rnd by (simp add: io_ReadFull_def)
  have r2: "io_ReadFull (drop 32 rnd) 512 = (Inr (take 512 (drop 32 rnd)), drop 544 rnd)"
    using rnd by (simp add: io_ReadFull_def)
  have pf: "put_fault st1 = put_fault vaultStorage"
    unfolding st1 by (rule put_fault_PutBlock)
  have l3: "16 \<le> length (drop 544 rnd)" using rnd by simp
  have p1: "Put C v1 checksumBlockID (take 512 (drop 32 rnd)) (drop 544 rnd)
              = (None, v1\<lparr>storage := ?st2\<rparr>, drop 560 rnd)"
    by (subst Put_sealed [OF nc nh l3]) (simp add: PutBlock_def v1 pf wc iv1 b1)
  have nc2: "newCipher C (v1\<lparr>storage := ?st2\<rparr>) = Inr (Some blk)"
    by (simp add: newCipher_storage nc)
  have nh2: "newChecksum C (v1\<lparr>storage := ?st2\<rparr>) = Inr hash"
    by (simp add: newChecksum_storage nh)
  have l4: "16 \<le> length (drop 560 rnd)" using rnd by simp
  have p2: "Put C (v1\<lparr>storage := ?st2\<rparr>) repositoryConfigBlock repoBytes (drop 560 rnd)
              = (None, v1\<lparr>storage := st3\<rparr>, drop 576 rnd)"
    by (subst Put_sealed [OF nc2 nh2 l4]) (simp add: PutBlock_def v1 pf wr iv2 b2 st3)
  show ?thesis
    by (simp add: Create_def conn r1 r2 Let_def fmt [symmetric] jf st1 [symmetric] v1 [symmetric] p1
                  putJSON_def jr p2)
qed

text \<open>
  C7. \<^verbatim>\<open>Create\<close> does not look at the result of writing the format block. On a
  store that refuses that write (and accepts the others), \<^verbatim>\<open>PutBlock\<close> of the format
  block returns an error, yet \<^verbatim>\<open>Create\<close> returns a vault and no error, the blocks
  \<open>checksum\<close> and \<open>repo\<close> are written, the block \<open>format\<close> is absent, and
  \<^verbatim>\<open>Open\<close> of that store with the same credentials fails with \<open>NotFound\<close>.
\<close>

theorem Create_ignores_format_write_error:
  "fst (PutBlock refusing_storage formatBlockID
          (map of_char ''1'' @ [10] @ map of_char ''aes-256'' @ [10] @ map of_char ''hmac-sha-256''
             @ [10] @ replicate 32 9)) = Some (Errorf ''disk full'')
   \<and> \<not> isl (fst created_refused)
   \<and> blocks (fst (snd created_refused)) ''format'' = None
   \<and> blocks (fst (snd created_refused)) ''checksum'' \<noteq> None
   \<and> blocks (fst (snd created_refused)) ''repo'' \<noteq> None
   \<and> Open demo_library demo_crypto (fst (snd created_refused)) demo_creds = Err NotFound"
proof -
  let ?rnd = "replicate 576 (9 :: byte)"
  define fmt where "fmt = demo_format\<lparr>Version := ''1'', UniqueID := take 32 ?rnd\<rparr>"
  define fb where "fb = map of_char ''1'' @ [10] @ map of_char ''aes-256'' @ [10]
               @ map of_char ''hmac-sha-256'' @ [10] @ replicate 32 (9 :: byte)"
  define st1 where "st1 = snd (PutBlock refusing_storage formatBlockID fb)"
  define v1 where "v1 = \<lparr>storage = st1, masterKey = demo_creds (take 32 ?rnd), format = fmt\<rparr>"
  have refused: "PutBlock refusing_storage formatBlockID fb = (Some (Errorf ''disk full''), refusing_storage)"
    by (simp add: PutBlock_def refusing_storage_def formatBlockID_def)
  then have st1: "st1 = refusing_storage" by (simp add: st1_def)
  have jf: "json_Marshal_Format demo_library fmt = Inr fb"
    by (simp add: demo_library_def demo_Marshal_Format_def demo_format_def fmt_def fb_def)
  have jr: "json_Marshal_repositoryConfig demo_library
              \<lparr>Connection = ''filesystem'', repoFormat = ''repo-format''\<rparr>
            = Inr (map of_char (''filesystem'' @ '' '' @ ''repo-format''))"
    by (simp add: demo_library_def)
  have "Encryption (format v1) \<in> {''aes-128'', ''aes-192'', ''aes-256''}"
    by (simp add: v1_def fmt_def demo_format_def)
  then obtain blk where nc: "newCipher demo_crypto v1 = Inr (Some blk)"
    using newCipher_aes by blast
  define hash where "hash = hmac_New demo_crypto (deriveKey demo_crypto v1 purposeChecksumSecret 32)"
  have nh: "newChecksum demo_crypto v1 = Inr hash"
    unfolding hash_def by (rule newChecksum_hmac) (simp add: v1_def fmt_def demo_format_def)
  define iv1 where "iv1 = take 16 (drop 544 ?rnd)"
  define iv2 where "iv2 = take 16 (drop 560 ?rnd)"
  define body1 where "body1 = iv1 @ XORKeyStream blk iv1 (take 512 (drop 32 ?rnd))"
  define body2 where "body2 = iv2 @ XORKeyStream blk iv2 (map of_char (''filesystem'' @ '' '' @ ''repo-format''))"
  define st3 where "st3 = st1\<lparr>blocks := (blocks st1)(checksumBlockID \<mapsto> body1 @ Sum hash body1,
                                                 repositoryConfigBlock \<mapsto> body2 @ Sum hash body2)\<rparr>"
  have cr: "created_refused = (Inr (v1\<lparr>storage := st3\<rparr>), st3, drop 576 ?rnd)"
    unfolding created_refused_def
    by (rule Create_encrypted [where vaultCreds = demo_creds and vaultFormat = demo_format,
                                  OF _ _ fmt_def jf jr st1_def v1_def nc nh _ _ iv1_def iv2_def
                                  body1_def body2_def st3_def])
       (simp_all add: refusing_storage_def checksumBlockID_def repositoryConfigBlock_def)
  have b: "blocks st3 ''format'' = None" "blocks st3 ''checksum'' \<noteq> None" "blocks st3 ''repo'' \<noteq> None"
    by (simp_all add: st3_def st1 refusing_storage_def demo_storage_def
                      checksumBlockID_def repositoryConfigBlock_def)
  then have "Open demo_library demo_crypto st3 demo_creds = Err NotFound"
    by (simp add: Open_def GetBlock_def formatBlockID_def)
  moreover have "fst created_refused = Inr (v1\<lparr>storage := st3\<rparr>)" and "fst (snd created_refused) = st3"
    by (simp_all add: cr)
  moreover have "fst (PutBlock refusing_storage formatBlockID fb) = Some (Errorf ''disk full'')"
    by (simp add: refused)
  ultimately show ?thesis using b unfolding fb_def by simp
qed


lemma stale_format_decodes:
  "json_Unmarshal_Format demo_library stale_formatBytes = Inr stale_format"
  by code_simp

text \<open>
  C4. Opening with another master key succeeds after a dropped format write. The store
  holds the format block of an earlier vault without encryption and refuses to overwrite
  it. \<^verbatim>\<open>Create\<close> with AES-256 and the master key \<open>[1, 2, 3]\<close> drops the error of that
  write (C7), writes the encrypted blocks \<open>checksum\<close> and \<open>repo\<close> and returns a
  vault. \<^verbatim>\<open>Open\<close> of the same store with the master key \<open>[4, 5, 6]\<close> reads the old
  format block, finds encryption \<open>none\<close>, verifies no tag and returns a vault.
\<close>

theorem Open_other_key_after_dropped_format_write:
  "\<not> isl (fst created_stale)
   \<and> masterKey (projr (fst created_stale)) = [1, 2, 3]
   \<and> Encryption (format (projr (fst created_stale))) = ''aes-256''
   \<and> blocks (fst (snd created_stale)) ''format'' = blocks stale_storage ''format''
   \<and> other_creds (UniqueID stale_format) = [4, 5, 6]
   \<and> Open demo_library demo_crypto (fst (snd created_stale)) other_creds
        = Ok \<lparr>storage = fst (snd created_stale), masterKey = [4, 5, 6], format = stale_format\<rparr>"
proof -
  let ?rnd = "replicate 576 (9 :: byte)"
  define fmt where "fmt = demo_format\<lparr>Version := ''1'', UniqueID := take 32 ?rnd\<rparr>"
  define fb where "fb = map of_char ''1'' @ [10] @ map of_char ''aes-256'' @ [10]
               @ map of_char ''hmac-sha-256'' @ [10] @ replicate 32 (9 :: byte)"
  define st1 where "st1 = snd (PutBlock stale_storage formatBlockID fb)"
  define v1 where "v1 = \<lparr>storage = st1, masterKey = demo_creds (take 32 ?rnd), format = fmt\<rparr>"
  have st1: "st1 = stale_storage"
    by (simp add: st1_def PutBlock_def stale_storage_def refusing_storage_def formatBlockID_def)
  have jf: "json_Marshal_Format demo_library fmt = Inr fb"
    by (simp add: demo_library_def demo_Marshal_Format_def demo_format_def fmt_def fb_def)
  have jr: "json_Marshal_repositoryConfig demo_library
              \<lparr>Connection = ''filesystem'', repoFormat = ''repo-format''\<rparr>
            = Inr (map of_char (''filesystem'' @ '' '' @ ''repo-format''))"
    by (simp add: demo_library_def)
  have "Encryption (format v1) \<in> {''aes-128'', ''aes-192'', ''aes-256''}"
    by (simp add: v1_def fmt_def demo_format_def)
  then obtain blk where nc: "newCipher demo_crypto v1 = Inr (Some blk)"
    using newCipher_aes by blast
  define hash where "hash = hmac_New demo_crypto (deriveKey demo_crypto v1 purposeChecksumSecret 32)"
  have nh: "newChecksum demo_crypto v1 = Inr hash"
    unfolding hash_def by (rule newChecksum_hmac) (simp add: v1_def fmt_def demo_format_def)
  define iv1 where "iv1 = take 16 (drop 544 ?rnd)"
  define iv2 where "iv2 = take 16 (drop 560 ?rnd)"
  define body1 where "body1 = iv1 @ XORKeyStream blk iv1 (take 512 (drop 32 ?rnd))"
  define body2 where "body2 = iv2 @ XORKeyStream blk iv2 (map of_char (''filesystem'' @ '' '' @ ''repo-format''))"
  define st3 where "st3 = st1\<lparr>blocks := (blocks st1)(checksumBlockID \<mapsto> body1 @ Sum hash body1,
                                                 repositoryConfigBlock \<mapsto> body2 @ Sum hash body2)\<rparr>"
  have cr: "created_stale = (Inr (v1\<lparr>storage := st3\<rparr>), st3, drop 576 ?rnd)"
    unfolding created_stale_def
    by (rule Create_encrypted [where vaultCreds = demo_creds and vaultFormat = demo_format,
                                  OF _ _ fmt_def jf jr st1_def v1_def nc nh _ _ iv1_def iv2_def
                                  body1_def body2_def st3_def])
       (simp_all add: stale_storage_def refusing_storage_def checksumBlockID_def
                      repositoryConfigBlock_def)
  have pr: "fst created_stale = Inr (v1\<lparr>storage := st3\<rparr>)" "fst (snd created_stale) = st3"
    by (simp_all add: cr)
  have gf: "GetBlock st3 formatBlockID = Inr stale_formatBytes"
    by (simp add: GetBlock_def st3_def st1 stale_storage_def formatBlockID_def
                  checksumBlockID_def repositoryConfigBlock_def)
  have bf: "blocks st3 ''format'' = blocks stale_storage ''format''"
    by (simp add: st3_def st1 checksumBlockID_def repositoryConfigBlock_def)
  have oc: "other_creds (UniqueID stale_format) = [4, 5, 6]"
    by (simp add: other_creds_def)
  have rd: "readEncryptedBlock demo_crypto
              \<lparr>storage = st3, masterKey = [4, 5, 6], format = stale_format\<rparr> checksumBlockID
            = Ok (body1 @ Sum hash body1)"
    by (simp add: readEncryptedBlock_def GetBlock_def newCipher_def stale_format_def st3_def
                  checksumBlockID_def repositoryConfigBlock_def)
  have "Open demo_library demo_crypto st3 other_creds
          = Ok \<lparr>storage = st3, masterKey = [4, 5, 6], format = stale_format\<rparr>"
    by (simp add: Open_def gf stale_format_decodes oc Let_def rd)
  moreover have "masterKey (v1\<lparr>storage := st3\<rparr>) = [1, 2, 3]"
    by (simp add: v1_def demo_creds_def)
  moreover have "Encryption (format (v1\<lparr>storage := st3\<rparr>)) = ''aes-256''"
    by (simp add: v1_def fmt_def demo_format_def)
  ultimately show ?thesis using pr bf oc by simp
qed

subsection \<open>OpenWithToken\<close>

text \<open>
  C8, as the code has it. A token that is rejected yields an error and no vault, and the
  message tells the stage that rejected it: \<open>invalid vault base64 token: \<close> followed
  by the decoder's message for malformed base64; \<open>invalid vault json token: \<close>
  followed by the decoder's message for malformed JSON;
  \<open>cannot open vault storage: \<close> followed by the constructor's message when no
  storage can be made from the connection; and, once the storage has been made, the
  fixed message \<open>invalid vault token\<close> for a key that \<^verbatim>\<open>MasterKey\<close> rejects.
\<close>

theorem OpenWithToken_rejections:
  "(base64_DecodeString L token = Inl msg \<longrightarrow>
      OpenWithToken L C token = Err (Errorf (''invalid vault base64 token: '' @ msg)))
   \<and> (base64_DecodeString L token = Inr b \<and> json_Unmarshal_vaultConfig L b = Inl msg \<longrightarrow>
      OpenWithToken L C token = Err (Errorf (''invalid vault json token: '' @ msg)))
   \<and> (base64_DecodeString L token = Inr b \<and> json_Unmarshal_vaultConfig L b = Inr vc
        \<and> blob_NewStorage L (ConnectionInfo vc) = Inl msg \<longrightarrow>
      OpenWithToken L C token = Err (Errorf (''cannot open vault storage: '' @ msg)))
   \<and> (base64_DecodeString L token = Inr b \<and> json_Unmarshal_vaultConfig L b = Inr vc
        \<and> blob_NewStorage L (ConnectionInfo vc) = Inr st \<and> MasterKey L (Key vc) = Inl msg \<longrightarrow>
      OpenWithToken L C token = Err (Errorf ''invalid vault token''))"
  by (simp add: OpenWithToken_def)

theorem OpenWithToken_rejections_witness:
  "base64_DecodeString demo_library ''!'' = Inl ''illegal base64 data at input byte 0''
   \<and> OpenWithToken demo_library demo_crypto ''!''
       = Err (Errorf ''invalid vault base64 token: illegal base64 data at input byte 0'')
   \<and> base64_DecodeString demo_library ''eA'' = Inr [120]
   \<and> json_Unmarshal_vaultConfig demo_library [120]
       = Inl ''invalid character 'x' looking for beginning of value''
   \<and> OpenWithToken demo_library demo_crypto ''eA''
       = Err (Errorf ''invalid vault json token: invalid character 'x' looking for beginning of value'')
   \<and> base64_DecodeString demo_library ''e30'' = Inr [123, 125]
   \<and> json_Unmarshal_vaultConfig demo_library [123, 125] = Inr \<lparr>ConnectionInfo = [], Key = []\<rparr>
   \<and> blob_NewStorage demo_library [] = Inl ''unknown storage type''
   \<and> OpenWithToken demo_library demo_crypto ''e30''
       = Err (Errorf ''cannot open vault storage: unknown storage type'')
   \<and> blob_NewStorage demo_library ''filesystem'' = Inr demo_storage
   \<and> MasterKey demo_library [1, 2, 3] = Inl ''master key too short''
   \<and> OpenWithToken demo_library demo_crypto ''eyJjb25uZWN0aW9uIjoiZmlsZXN5c3RlbSIsImtleSI6IkFRSUQifQ''
       = Err (Errorf ''invalid vault token'')"
proof -
  let ?t = "''eyJjb25uZWN0aW9uIjoiZmlsZXN5c3RlbSIsImtleSI6IkFRSUQifQ''"
  let ?j = "[123, 34, 99, 111, 110, 110, 101, 99, 116, 105, 111, 110, 34, 58, 34,
             102, 105, 108, 101, 115, 121, 115, 116, 101, 109, 34, 44, 34, 107,
             101, 121, 34, 58, 34, 65, 81, 73, 68, 34, 125] :: bytes"
  have a: "base64_DecodeString demo_library ''!'' = Inl ''illegal base64 data at input byte 0''"
    by (simp add: demo_library_def)
  have b: "base64_DecodeString demo_library ''eA'' = Inr [120]"
          "json_Unmarshal_vaultConfig demo_library [120]
             = Inl ''invalid character 'x' looking for beginning of value''"
    by (simp_all add: demo_library_def)
  have c: "base64_DecodeString demo_library ''e30'' = Inr [123, 125]"
          "json_Unmarshal_vaultConfig demo_library [123, 125] = Inr \<lparr>ConnectionInfo = [], Key = []\<rparr>"
          "blob_NewStorage demo_library [] = Inl ''unknown storage type''"
    by (simp_all add: demo_library_def)
  have d: "base64_DecodeString demo_library ?t = Inr ?j"
          "json_Unmarshal_vaultConfig demo_library ?j = Inr \<lparr>ConnectionInfo = ''filesystem'', Key = [1, 2, 3]\<rparr>"
          "blob_NewStorage demo_library ''filesystem'' = Inr demo_storage"
          "MasterKey demo_library [1, 2, 3] = Inl ''master key too short''"
    by (simp_all add: demo_library_def)
  show ?thesis
    using a b c d
      OpenWithToken_rejections [of demo_library "''!''" "''illegal base64 data at input byte 0''" demo_crypto]
      OpenWithToken_rejections [of demo_library "''eA''" "''invalid character 'x' looking for beginning of value''"
                                   demo_crypto "[120]"]
      OpenWithToken_rejections [of demo_library "''e30''" "''unknown storage type''" demo_crypto
                                   "[123, 125]" "\<lparr>ConnectionInfo = [], Key = []\<rparr>"]
      OpenWithToken_rejections [of demo_library ?t "''master key too short''" demo_crypto ?j
                                   "\<lparr>ConnectionInfo = ''filesystem'', Key = [1, 2, 3]\<rparr>" demo_storage]
    by simp
qed


text \<open>
  C8, as stated, fails: the rejected tokens \<open>!\<close> (not base64), \<open>eA\<close> (base64 of
  \<open>x\<close>, not JSON) and the token of a configuration whose key is rejected produce three
  different messages, two of which name the part of the token that was wrong.
\<close>

theorem OpenWithToken_messages_differ:
  "OpenWithToken demo_library demo_crypto ''!''
     = Err (Errorf ''invalid vault base64 token: illegal base64 data at input byte 0'')
   \<and> OpenWithToken demo_library demo_crypto ''eA''
     = Err (Errorf ''invalid vault json token: invalid character 'x' looking for beginning of value'')
   \<and> OpenWithToken demo_library demo_crypto ''eyJjb25uZWN0aW9uIjoiZmlsZXN5c3RlbSIsImtleSI6IkFRSUQifQ''
     = Err (Errorf ''invalid vault token'')
   \<and> OpenWithToken demo_library demo_crypto ''!'' \<noteq> OpenWithToken demo_library demo_crypto ''eA''
   \<and> OpenWithToken demo_library demo_crypto ''eA''
       \<noteq> OpenWithToken demo_library demo_crypto ''eyJjb25uZWN0aW9uIjoiZmlsZXN5c3RlbSIsImtleSI6IkFRSUQifQ''"
  by (simp add: OpenWithToken_def demo_library_def)

end
